theory Spec2Isabelle
  imports Complex_Main "HOL-Library.Sublist"
begin

section \<open>Strings\<close>

text \<open>
  A JavaScript string is a sequence of UTF-16 code units. Every string literal of the
  source (modality names, messages) lies in the Latin-1 range U+0000..U+00FF, written
  in precomposed form, so a code unit is modelled by an 8-bit \<^typ>\<open>char\<close> holding the
  code point and a string by \<^typ>\<open>string\<close>. Non-ASCII characters are written by code
  point: \<open>CHR 0xE3\<close> is a-tilde, \<open>CHR 0xE7\<close> is c-cedilla, \<open>CHR 0xF4\<close> is
  o-circumflex. Strings with code points beyond U+00FF are outside the model.
\<close>

definition lowerChar :: "char \<Rightarrow> char" where
  \<comment> \<open>Unicode simple lower-casing on Latin-1: A..Z and U+00C0..U+00DE except U+00D7.\<close>
  "lowerChar c =
     (let n = (of_char c :: nat)
      in if (65 \<le> n \<and> n \<le> 90) \<or> (192 \<le> n \<and> n \<le> 222 \<and> n \<noteq> 215)
         then char_of (n + 32) else c)"

definition toLowerCase :: "string \<Rightarrow> string" where
  "toLowerCase s = map lowerChar s"

definition isWhiteSpace :: "char \<Rightarrow> bool" where
  \<comment> \<open>The white space and line terminators of ECMAScript that lie in Latin-1.\<close>
  "isWhiteSpace c =
     (let n = (of_char c :: nat) in (9 \<le> n \<and> n \<le> 13) \<or> n = 32 \<or> n = 160)"

definition trim :: "string \<Rightarrow> string" where
  "trim s = rev (dropWhile isWhiteSpace (rev (dropWhile isWhiteSpace s)))"

fun replaceFirst :: "string \<Rightarrow> string \<Rightarrow> string" where
  \<comment> \<open>\<open>s.replace(pat, "")\<close> with a string pattern: only the first occurrence is removed.\<close>
  "replaceFirst pat [] = []"
| "replaceFirst pat (c # cs) =
     (if prefix pat (c # cs) then drop (length pat) (c # cs) else c # replaceFirst pat cs)"

definition includesStr :: "string \<Rightarrow> string \<Rightarrow> bool" where
  \<comment> \<open>\<open>s.includes(t)\<close>: \<open>t\<close> occurs in \<open>s\<close> as a contiguous run.\<close>
  "includesStr s t = sublist t s"

definition truthyStr :: "string option \<Rightarrow> bool" where
  \<comment> \<open>Truthiness of a \<open>string | null\<close>: null and the empty string are falsy.\<close>
  "truthyStr s = (case s of None \<Rightarrow> False | Some v \<Rightarrow> v \<noteq> [])"

definition truthyNum :: "real option \<Rightarrow> bool" where
  \<comment> \<open>Truthiness of a \<open>number | null\<close> holding a finite number: null and 0 are falsy.\<close>
  "truthyNum x = (case x of None \<Rightarrow> False | Some v \<Rightarrow> v \<noteq> 0)"

section \<open>Modality resolver\<close>

definition licitacao_sfx :: string where
  "licitacao_sfx = ''licita'' @ [CHR 0xE7, CHR 0xE3] @ ''o''"

definition modalidadesMap :: "(string \<times> int) list" where
  "modalidadesMap =
    [(''leil'' @ [CHR 0xE3] @ ''o eletr'' @ [CHR 0xF4] @ ''nico'', 1),
     (''di'' @ [CHR 0xE1] @ ''logo competitivo'', 2),
     (''concurso'', 3),
     (''concorr'' @ [CHR 0xEA] @ ''ncia eletr'' @ [CHR 0xF4] @ ''nica'', 4),
     (''concorr'' @ [CHR 0xEA] @ ''ncia presencial'', 5),
     (''preg'' @ [CHR 0xE3] @ ''o eletr'' @ [CHR 0xF4] @ ''nico'', 6),
     (''preg'' @ [CHR 0xE3] @ ''o presencial'', 7),
     (''dispensa de '' @ licitacao_sfx, 8),
     (''inexigibilidade de '' @ licitacao_sfx, 9),
     (''manifesta'' @ [CHR 0xE7, CHR 0xE3] @ ''o de interesse'', 10),
     (''pr'' @ [CHR 0xE9] @ ''-qualifica'' @ [CHR 0xE7, CHR 0xE3] @ ''o'', 11),
     (''credenciamento'', 12),
     (''leil'' @ [CHR 0xE3] @ ''o presencial'', 13)]"

definition normalizedName :: "string \<Rightarrow> string" where
  "normalizedName modalidadeNome =
     trim (replaceFirst ('' de '' @ licitacao_sfx) (toLowerCase modalidadeNome))"

definition getPncpModalidadeCodigo :: "string \<Rightarrow> int option" where
  \<comment> \<open>\<open>None\<close> is \<open>undefined\<close>. Only the table's own keys are modelled; property names
      inherited from \<open>Object.prototype\<close> are outside the model.\<close>
  "getPncpModalidadeCodigo modalidadeNome = map_of modalidadesMap (normalizedName modalidadeNome)"

definition ALL_MODALITY_CODES :: "int list" where
  "ALL_MODALITY_CODES = [1, 2, 3, 4, 5, 6, 7, 8, 9, 10, 11, 12, 13]"

definition modalidadesCodigos :: "string list \<Rightarrow> int list" where
  "modalidadesCodigos ms =
     (if length ms > 0 then List.map_filter getPncpModalidadeCodigo ms else ALL_MODALITY_CODES)"

section \<open>Result envelope and error classifier\<close>

text \<open>
  The envelope \<open>ApiResponse<T>\<close> of the source: \<open>{success, data?, error?, status?}\<close>.
  An optional field that is not set is \<open>None\<close>.
\<close>

record 'a ApiResponse =
  success :: bool
  data :: "'a option"
  error :: "string option"
  status :: "int option"

text \<open>
  The values thrown inside the pipeline. A field of the upstream body is absent, a
  string, or some other value, of which only the truthiness matters. An Axios error
  carries its message and, when the server answered, the response with its status and
  body; \<open>None\<close> for the body covers a missing body and a body that is no object. The
  body of such a response was decoded by Axios from the text of an HTTP response, so
  it is text or parsed JSON, which \<open>JSON.stringify\<close> serialises.
\<close>

datatype jsfield = Absent | Str string | OtherTruthy | OtherFalsy

record responseData =
  error_field :: jsfield
  message_field :: jsfield

record axiosResponse =
  response_status :: int
  response_data :: "responseData option"

datatype thrown =
    AxiosError "axiosResponse option" string
  | JsError string
  | Unknown

text \<open>
  What \<open>handleApiError\<close> can be handed, its parameter being \<open>unknown\<close>: a value as
  above, or an Axios error made by a caller whose response body is truthy and cannot
  be serialised (it has a cycle or holds a \<open>BigInt\<close>), given with its response, its
  message and the message of the \<open>TypeError\<close> that \<open>JSON.stringify\<close> throws on the body.
\<close>

datatype errorInput =
    Thrown thrown
  | AxiosErrorUnserialisable axiosResponse string string

definition truthyField :: "jsfield \<Rightarrow> bool" where
  "truthyField v = (case v of Absent \<Rightarrow> False | Str s \<Rightarrow> s \<noteq> [] | OtherTruthy \<Rightarrow> True
                     | OtherFalsy \<Rightarrow> False)"

definition orField :: "jsfield \<Rightarrow> jsfield \<Rightarrow> jsfield" where
  \<comment> \<open>\<open>a || b\<close>\<close>
  "orField a b = (if truthyField a then a else b)"

definition msg404 :: string where
  "msg404 = ''Recurso n'' @ [CHR 0xE3] @ ''o encontrado na API. Verifique o endpoint ou par''
            @ [CHR 0xE2] @ ''metros.''"

definition msg429 :: string where
  "msg429 = ''Limite de requisi'' @ [CHR 0xE7, CHR 0xF5]
            @ ''es excedido na API. Tente novamente mais tarde.''"

definition apiErrorEnvelope :: "thrown \<Rightarrow> string \<Rightarrow> 'a ApiResponse" where
  \<comment> \<open>The message and the status that \<open>handleApiError\<close> computes, in the envelope of its
      \<open>return\<close> statement.\<close>
  "apiErrorEnvelope err defaultMessage =
    (case err of
       AxiosError resp axiosMessage \<Rightarrow>
         (let st = (case resp of None \<Rightarrow> 500
                    | Some r \<Rightarrow> if response_status r = 0 then 500 else response_status r);
              dat = (case resp of None \<Rightarrow> None | Some r \<Rightarrow> response_data r);
              responseError = (case dat of None \<Rightarrow> Absent
                               | Some d \<Rightarrow> orField (error_field d) (message_field d));
              message = (case responseError of
                           Str s \<Rightarrow> s
                         | _ \<Rightarrow> if axiosMessage \<noteq> [] then axiosMessage else defaultMessage);
              message' = (if st = 404 then msg404 else if st = 429 then msg429 else message)
          in \<lparr>success = False, data = None, error = Some message', status = Some st\<rparr>)
     | JsError m \<Rightarrow> \<lparr>success = False, data = None, error = Some m, status = Some 500\<rparr>
     | Unknown \<Rightarrow>
         \<lparr>success = False, data = None, error = Some defaultMessage, status = Some 500\<rparr>)"

definition handleApiError :: "errorInput \<Rightarrow> string \<Rightarrow> thrown + 'a ApiResponse" where
  \<comment> \<open>\<open>Inl\<close> is a throw. Of the logging only \<open>JSON.stringify(axiosError.response.data)\<close>
      bears on the outcome: it runs for an Axios error with a truthy response body,
      before the \<open>return\<close>, and throws its \<open>TypeError\<close> on a body that cannot be
      serialised.\<close>
  "handleApiError err defaultMessage =
    (case err of
       AxiosErrorUnserialisable resp axiosMessage typeErrorMessage \<Rightarrow>
         Inl (JsError typeErrorMessage)
     | Thrown t \<Rightarrow> Inr (apiErrorEnvelope t defaultMessage))"

section \<open>Procurement records and the two local filters\<close>

text \<open>
  Modelled from the spec: the record types \<open>PncpLicitacao\<close> and \<open>ComprasLicitacao\<close> of
  \<open>lib/types\<close> are not among the sources. The pipeline reads only \<open>objetoCompra\<close>,
  \<open>valorTotalEstimado\<close> and \<open>valorTotalHomologado\<close>; \<open>numeroControlePNCP\<close> is the
  unique control identifier and stands for all the fields that are carried along
  unread. An absent or null field is \<open>None\<close>. Values are finite numbers, on which
  \<open>Math.max\<close> and the comparisons agree with the order of the reals.
\<close>

record licitacao =
  numeroControlePNCP :: string
  objetoCompra :: "string option"
  valorTotalEstimado :: "real option"
  valorTotalHomologado :: "real option"

definition objeto :: "licitacao \<Rightarrow> string" where
  \<comment> \<open>\<open>licitacao.objetoCompra?.toLowerCase() || ''\<close>\<close>
  "objeto lic = (case objetoCompra lic of None \<Rightarrow> [] | Some s \<Rightarrow> toLowerCase s)"

subsection \<open>The boundary filter of the route handler\<close>

definition searchTerms :: "string list \<Rightarrow> string list list \<Rightarrow> string list" where
  "searchTerms palavrasChave sinonimos =
     filter (\<lambda>term. length term > 0)
       (map toLowerCase palavrasChave @ map toLowerCase (concat sinonimos))"

definition objetoOk :: "string list \<Rightarrow> licitacao \<Rightarrow> bool" where
  "objetoOk terms lic = (length terms = 0 \<or> list_ex (\<lambda>term. includesStr (objeto lic) term) terms)"

definition valorParaComparar :: "licitacao \<Rightarrow> real" where
  "valorParaComparar lic =
     max (case valorTotalEstimado lic of None \<Rightarrow> 0 | Some v \<Rightarrow> v)
         (case valorTotalHomologado lic of None \<Rightarrow> 0 | Some v \<Rightarrow> v)"

definition valorMinOk :: "real option \<Rightarrow> licitacao \<Rightarrow> bool" where
  "valorMinOk valorMin lic =
     (case valorMin of None \<Rightarrow> True | Some lo \<Rightarrow> valorParaComparar lic \<ge> lo)"

definition valorMaxOk :: "real option \<Rightarrow> licitacao \<Rightarrow> bool" where
  "valorMaxOk valorMax lic =
     (case valorMax of None \<Rightarrow> True | Some hi \<Rightarrow> valorParaComparar lic \<le> hi)"

definition valorOk :: "real option \<Rightarrow> real option \<Rightarrow> licitacao \<Rightarrow> bool" where
  \<comment> \<open>The numeric-range stage: what is left of the callback once \<open>objetoOk\<close> holds.\<close>
  "valorOk valorMin valorMax lic =
     (if \<not> valorMinOk valorMin lic \<or> \<not> valorMaxOk valorMax lic then False else True)"

definition licitacoesFiltradas ::
  "string list \<Rightarrow> string list list \<Rightarrow> real option \<Rightarrow> real option \<Rightarrow> licitacao list
   \<Rightarrow> licitacao list" where
  "licitacoesFiltradas palavrasChave sinonimos valorMin valorMax licitacoesEncontradas =
     filter (\<lambda>lic. if \<not> objetoOk (searchTerms palavrasChave sinonimos) lic then False
                   else valorOk valorMin valorMax lic)
       licitacoesEncontradas"

subsection \<open>The keyword and blacklist filter of the fetch layer\<close>

definition temKeyword :: "string list \<Rightarrow> licitacao \<Rightarrow> bool" where
  "temKeyword lowercasedKeywords lic =
     (length lowercasedKeywords = 0
      \<or> list_ex (\<lambda>kw. includesStr (objeto lic) kw) lowercasedKeywords)"

definition temBlacklist :: "string list \<Rightarrow> licitacao \<Rightarrow> bool" where
  "temBlacklist lowercasedBlacklist lic =
     (length lowercasedBlacklist > 0
      \<and> list_ex (\<lambda>bl. includesStr (objeto lic) bl) lowercasedBlacklist)"

definition finalResults :: "string list \<Rightarrow> string list \<Rightarrow> licitacao list \<Rightarrow> licitacao list" where
  "finalResults palavrasChave blacklist allLicitacoes =
     filter (\<lambda>lic. temKeyword (map toLowerCase palavrasChave) lic
                   \<and> \<not> temBlacklist (map toLowerCase blacklist) lic)
       allLicitacoes"

section \<open>Calendar dates\<close>

text \<open>
  The date bounds of a Filter Set are ISO calendar dates. \<open>parseISO\<close> of such a string
  is the \<open>Date\<close> at local midnight of that day, modelled by the day's number counted
  from 1970-01-01; on such dates \<open>differenceInDays\<close> is the difference of the day
  numbers and \<open>subDays\<close> subtracts from the day number (daylight-saving shifts of
  local midnight are not modelled). \<open>None\<close> is the Invalid Date. Only the extended
  format \<open>yyyy-MM-dd\<close> is modelled; the other inputs \<open>parseISO\<close> accepts (basic
  format, week and ordinal dates, times of day) are outside the model.
\<close>

type_synonym date = int

definition daysFromCivil :: "int \<Rightarrow> int \<Rightarrow> int \<Rightarrow> date" where
  "daysFromCivil y m d =
     (let y' = (if m \<le> 2 then y - 1 else y);
          era = y' div 400;
          yoe = y' - era * 400;
          doy = (153 * (if m > 2 then m - 3 else m + 9) + 2) div 5 + d - 1;
          doe = yoe * 365 + yoe div 4 - yoe div 100 + doy
      in era * 146097 + doe - 719468)"

definition civilFromDays :: "date \<Rightarrow> int \<times> int \<times> int" where
  "civilFromDays z =
     (let z' = z + 719468;
          era = z' div 146097;
          doe = z' - era * 146097;
          yoe = (doe - doe div 1460 + doe div 36524 - doe div 146096) div 365;
          doy = doe - (365 * yoe + yoe div 4 - yoe div 100);
          mp = (5 * doy + 2) div 153;
          d = doy - (153 * mp + 2) div 5 + 1;
          m = (if mp < 10 then mp + 3 else mp - 9);
          y = yoe + era * 400
      in (if m \<le> 2 then y + 1 else y, m, d))"

definition isLeapYear :: "int \<Rightarrow> bool" where
  "isLeapYear y = (y mod 400 = 0 \<or> (y mod 4 = 0 \<and> y mod 100 \<noteq> 0))"

definition daysInMonth :: "int \<Rightarrow> int \<Rightarrow> int" where
  "daysInMonth y m =
     (if m = 2 then (if isLeapYear y then 29 else 28)
      else if m = 4 \<or> m = 6 \<or> m = 9 \<or> m = 11 then 30 else 31)"

definition digitVal :: "char \<Rightarrow> int option" where
  "digitVal c = (let n = (of_char c :: nat) in if 48 \<le> n \<and> n \<le> 57 then Some (int n - 48) else None)"

fun digitsVal :: "int \<Rightarrow> string \<Rightarrow> int option" where
  "digitsVal acc [] = Some acc"
| "digitsVal acc (c # cs) =
     (case digitVal c of None \<Rightarrow> None | Some v \<Rightarrow> digitsVal (10 * acc + v) cs)"

definition parseISO :: "string \<Rightarrow> date option" where
  "parseISO s =
     (if length s = 10 \<and> s ! 4 = CHR ''-'' \<and> s ! 7 = CHR ''-''
      then (case (digitsVal 0 (take 4 s), digitsVal 0 (take 2 (drop 5 s)),
                  digitsVal 0 (take 2 (drop 8 s))) of
              (Some y, Some m, Some d) \<Rightarrow>
                if 1 \<le> m \<and> m \<le> 12 \<and> 1 \<le> d \<and> d \<le> daysInMonth y m
                then Some (daysFromCivil y m d) else None
            | _ \<Rightarrow> None)
      else None)"

definition differenceInDays :: "date \<Rightarrow> date \<Rightarrow> int" where
  "differenceInDays laterDate earlierDate = laterDate - earlierDate"

definition subDays :: "date \<Rightarrow> int \<Rightarrow> date" where
  "subDays d amount = d - amount"

definition digitChar :: "int \<Rightarrow> char" where
  "digitChar v = char_of (48 + nat v)"

definition addLeadingZeros :: "int \<Rightarrow> nat \<Rightarrow> string" where
  \<comment> \<open>The decimal digits of a non-negative number, padded with zeros to a least width.\<close>
  "addLeadingZeros v width =
     (let ds = (if v < 10 then [digitChar v]
                else if v < 100 then [digitChar (v div 10), digitChar (v mod 10)]
                else if v < 1000 then [digitChar (v div 100), digitChar (v div 10 mod 10),
                                       digitChar (v mod 10)]
                else [digitChar (v div 1000 mod 10), digitChar (v div 100 mod 10),
                      digitChar (v div 10 mod 10), digitChar (v mod 10)])
      in replicate (width - length ds) (CHR ''0'') @ ds)"

definition format_yyyyMMdd :: "date \<Rightarrow> string" where
  \<comment> \<open>\<open>format(d, 'yyyyMMdd')\<close> for years of at most four digits; the token \<open>yyyy\<close>
      prints year \<open>y \<le> 0\<close> as \<open>1 - y\<close>.\<close>
  "format_yyyyMMdd dt =
     (case civilFromDays dt of
        (y, m, d) \<Rightarrow>
          addLeadingZeros (if y > 0 then y else 1 - y) 4 @ addLeadingZeros m 2
          @ addLeadingZeros d 2)"

section \<open>The fetch pipeline\<close>

record PncpApiFilters =
  palavrasChave :: "string list"
  valorMin :: "real option"
  valorMax :: "real option"
  estado :: "string option"
  modalidades :: "string list"
  dataInicial :: "string option"
  dataFinal :: "string option"
  blacklist :: "string list"

text \<open>
  The query parameters. A key that the source does not set is \<open>None\<close>. The request
  parameters are the base parameters spread into a new object together with the
  modality code and the page number.
\<close>

record baseParams =
  tamanhoPagina :: int
  param_dataInicial :: "string option"
  param_dataFinal :: "string option"
  uf :: "string option"
  valorMinimo :: "real option"
  valorMaximo :: "real option"

record params = baseParams +
  codigoModalidadeContratacao :: int
  pagina :: int

definition strOf :: "string option \<Rightarrow> string" where
  "strOf s = (case s of None \<Rightarrow> [] | Some v \<Rightarrow> v)"

definition dateParams :: "string option \<Rightarrow> string option \<Rightarrow> (string option \<times> string option) option" where
  \<comment> \<open>The formatted date bounds; \<open>None\<close> when \<open>format\<close> throws its \<open>RangeError\<close> on an
      Invalid Date (a comparison with the \<open>NaN\<close> difference is false, so the bound is
      formatted unadjusted and throws).\<close>
  "dateParams di df =
     (if truthyStr di \<and> truthyStr df then
        (case (parseISO (strOf di), parseISO (strOf df)) of
           (Some dataInicial0, Some dataFinal0) \<Rightarrow>
             (let dataInicial1 = (if differenceInDays dataFinal0 dataInicial0 > 365
                                  then subDays dataFinal0 365 else dataInicial0)
              in Some (Some (format_yyyyMMdd dataInicial1), Some (format_yyyyMMdd dataFinal0)))
         | _ \<Rightarrow> None)
      else if truthyStr di then
        (case parseISO (strOf di) of
           Some d \<Rightarrow> Some (Some (format_yyyyMMdd d), None) | None \<Rightarrow> None)
      else if truthyStr df then
        (case parseISO (strOf df) of
           Some d \<Rightarrow> Some (None, Some (format_yyyyMMdd d)) | None \<Rightarrow> None)
      else Some (None, None))"

definition mkBaseParams :: "PncpApiFilters \<Rightarrow> thrown + baseParams" where
  "mkBaseParams filters =
     (case dateParams (dataInicial filters) (dataFinal filters) of
        None \<Rightarrow> Inl (JsError ''Invalid time value'')
      | Some (di, df) \<Rightarrow>
          Inr \<lparr>tamanhoPagina = 50, param_dataInicial = di, param_dataFinal = df,
               uf = (if truthyStr (estado filters) then estado filters else None),
               valorMinimo = (if truthyNum (valorMin filters) then valorMin filters else None),
               valorMaximo = (if truthyNum (valorMax filters) then valorMax filters else None)\<rparr>)"

definition mkParams :: "baseParams \<Rightarrow> int \<Rightarrow> int \<Rightarrow> params" where
  \<comment> \<open>\<open>{...baseParams, codigoModalidadeContratacao: modalidadeCode, pagina: currentPage}\<close>\<close>
  "mkParams bp modalidadeCode currentPage =
     baseParams.extend bp (params.fields modalidadeCode currentPage)"

text \<open>
  One answer of the upstream service to a page request: the request is rejected
  (transport error or a status outside 2xx) with the value that is thrown, or the body
  has no array under \<open>data\<close>, or it has one, with \<open>totalPaginas\<close> (\<open>None\<close> when absent;
  an integer, as the response body declares it).
  The upstream service of a run is a function \<open>api n p\<close> of the number \<open>n\<close> of
  requests sent before and of the parameters \<open>p\<close> of the request, so that the same
  parameters may be answered differently when they are sent again.
\<close>

datatype reply = Failed thrown | Malformed | Page "licitacao list" "int option"

definition positive :: "int option \<Rightarrow> bool" where
  \<comment> \<open>\<open>response.data.totalPaginas > 0\<close>\<close>
  "positive t = (case t of None \<Rightarrow> False | Some v \<Rightarrow> v > 0)"

definition intOf :: "int option \<Rightarrow> int" where
  "intOf t = (case t of None \<Rightarrow> 0 | Some v \<Rightarrow> v)"

text \<open>
  The loop over the pages of one modality. The state is \<open>allLicitacoes\<close> together with
  the log of the requests sent so far; \<open>break\<close> returns the state. The call to
  \<open>handleApiError\<close> in the \<open>catch\<close> is handed the value thrown by the request, on which
  it returns, and the source discards its result.
\<close>

function pageLoop ::
  "(nat \<Rightarrow> params \<Rightarrow> reply) \<Rightarrow> baseParams \<Rightarrow> int \<Rightarrow> int \<Rightarrow> int \<Rightarrow> licitacao list \<times> params list
   \<Rightarrow> licitacao list \<times> params list" where
  "pageLoop api bp modalidadeCode currentPage totalPages st =
     (if currentPage \<le> totalPages then
        (case api (length (snd st)) (mkParams bp modalidadeCode currentPage) of
           Failed err \<Rightarrow> (fst st, snd st @ [mkParams bp modalidadeCode currentPage])
         | Malformed \<Rightarrow> (fst st, snd st @ [mkParams bp modalidadeCode currentPage])
         | Page recs tp \<Rightarrow>
             if currentPage = 1 \<and> positive tp then
               pageLoop api bp modalidadeCode (currentPage + 1) (intOf tp)
                 (fst st @ recs, snd st @ [mkParams bp modalidadeCode currentPage])
             else if currentPage = 1 then
               (fst st @ recs, snd st @ [mkParams bp modalidadeCode currentPage])
             else
               pageLoop api bp modalidadeCode (currentPage + 1) totalPages
                 (fst st @ recs, snd st @ [mkParams bp modalidadeCode currentPage]))
      else st)"
  by pat_completeness auto
termination
  by (relation "measures [\<lambda>(api, bp, c, cur, tot, st). if cur \<le> 1 then 1 else 0,
                          \<lambda>(api, bp, c, cur, tot, st). nat (tot + 1 - cur)]") auto

definition fetchModality ::
  "(nat \<Rightarrow> params \<Rightarrow> reply) \<Rightarrow> baseParams \<Rightarrow> licitacao list \<times> params list \<Rightarrow> int
   \<Rightarrow> licitacao list \<times> params list" where
  "fetchModality api bp st modalidadeCode = pageLoop api bp modalidadeCode 1 1 st"

definition fetchAll ::
  "(nat \<Rightarrow> params \<Rightarrow> reply) \<Rightarrow> baseParams \<Rightarrow> int list \<Rightarrow> licitacao list \<times> params list" where
  "fetchAll api bp codes = foldl (fetchModality api bp) ([], []) codes"

record 'r PncpApiResponse =
  pdata :: "'r list"
  totalRegistros :: int
  totalPaginas :: int
  numeroPagina :: int
  paginasRestantes :: int
  emptyFlag :: bool

definition erroGeral :: string where
  "erroGeral = ''Erro geral ao buscar licita'' @ [CHR 0xE7, CHR 0xF5] @ ''es na API PNCP''"

definition buscarLicitacoesPNCP ::
  "(nat \<Rightarrow> params \<Rightarrow> reply) \<Rightarrow> PncpApiFilters
   \<Rightarrow> licitacao PncpApiResponse ApiResponse \<times> params list" where
  \<comment> \<open>The envelope returned, and the requests sent upstream in their order. The fields
      \<open>pdata\<close> and \<open>emptyFlag\<close> are \<open>data\<close> and \<open>empty\<close> of the source. The outer
      \<open>catch\<close> returns what \<open>handleApiError\<close> returns on the value thrown inside the
      pipeline, which is this envelope.\<close>
  "buscarLicitacoesPNCP api filters =
     (case mkBaseParams filters of
        Inl err \<Rightarrow> (apiErrorEnvelope err erroGeral, [])
      | Inr bp \<Rightarrow>
          (case fetchAll api bp (modalidadesCodigos (modalidades filters)) of
             (allLicitacoes, sent) \<Rightarrow>
               (let fr = finalResults (palavrasChave filters) (blacklist filters) allLicitacoes
                in (\<lparr>success = True,
                     data = Some \<lparr>pdata = fr, totalRegistros = int (length fr), totalPaginas = 1,
                                  numeroPagina = 1, paginasRestantes = 0,
                                  emptyFlag = (length fr = 0)\<rparr>,
                     error = None, status = Some 200\<rparr>, sent))))"

section \<open>Notions for stating the properties of a run\<close>

text \<open>
  Whether an answer carries a page, the records it carries, the answer to the request
  for page \<open>j\<close> of a modality whose first request is the \<open>n0\<close>-th of the run, and the
  records carried by the answers to a sequence of requests sent from the start of a run.
\<close>

definition isPage :: "reply \<Rightarrow> bool" where
  "isPage r = (case r of Page recs tp \<Rightarrow> True | _ \<Rightarrow> False)"

definition recsOf :: "reply \<Rightarrow> licitacao list" where
  "recsOf r = (case r of Page recs tp \<Rightarrow> recs | _ \<Rightarrow> [])"

definition pageReply :: "(nat \<Rightarrow> params \<Rightarrow> reply) \<Rightarrow> nat \<Rightarrow> baseParams \<Rightarrow> int \<Rightarrow> int \<Rightarrow> reply" where
  "pageReply api n0 bp c j = api (n0 + nat (j - 1)) (mkParams bp c j)"

definition collected :: "(nat \<Rightarrow> params \<Rightarrow> reply) \<Rightarrow> params list \<Rightarrow> licitacao list" where
  "collected api sent = concat (map (\<lambda>i. recsOf (api i (sent ! i))) [0..<length sent])"

text \<open>
  A sequence of requests abandons a modality at each request that is not answered by a
  page: the request sent next, if any, asks for page 1.
\<close>

definition abandons :: "(nat \<Rightarrow> params \<Rightarrow> reply) \<Rightarrow> params list \<Rightarrow> bool" where
  "abandons api sent =
     (\<forall>i. Suc i < length sent \<and> \<not> isPage (api i (sent ! i)) \<longrightarrow> pagina (sent ! Suc i) = 1)"

section \<open>An example run\<close>

text \<open>
  A Filter Set over a window of 400 days and an upstream service for which the first
  page of modality 3 times out, modality 6 reports three pages of which the third has
  no array, modality 8 has one page and every other modality is empty.
\<close>

definition licLimpeza :: licitacao where
  "licLimpeza = \<lparr>numeroControlePNCP = ''0001'', objetoCompra = Some ''Servico de LIMPEZA urbana'',
                 valorTotalEstimado = Some 60000, valorTotalHomologado = None\<rparr>"

definition licAsfalto :: licitacao where
  "licAsfalto = \<lparr>numeroControlePNCP = ''0002'', objetoCompra = Some ''Limpeza de asfalto'',
                 valorTotalEstimado = Some 80000, valorTotalHomologado = None\<rparr>"

definition licHospital :: licitacao where
  "licHospital = \<lparr>numeroControlePNCP = ''0003'', objetoCompra = Some ''limpeza hospitalar'',
                  valorTotalEstimado = None, valorTotalHomologado = Some 120000\<rparr>"

definition exemploFiltros :: PncpApiFilters where
  "exemploFiltros =
     \<lparr>palavrasChave = [''limpeza''], valorMin = Some 50000, valorMax = None,
      estado = Some ''SP'', modalidades = [], dataInicial = Some ''2023-01-01'',
      dataFinal = Some ''2024-02-05'', blacklist = [''asfalto'']\<rparr>"

definition exemploFiltrosZero :: PncpApiFilters where
  "exemploFiltrosZero = exemploFiltros\<lparr>valorMin := Some 0, valorMax := Some 0\<rparr>"

definition exemploBase :: baseParams where
  "exemploBase =
     \<lparr>tamanhoPagina = 50, param_dataInicial = Some ''20230205'',
      param_dataFinal = Some ''20240205'', uf = Some ''SP'', valorMinimo = Some 50000,
      valorMaximo = None\<rparr>"

definition timeoutError :: thrown where
  "timeoutError = AxiosError None ''timeout of 60000ms exceeded''"

definition exemploUpstream :: "nat \<Rightarrow> params \<Rightarrow> reply" where
  "exemploUpstream n p =
     (if codigoModalidadeContratacao p = 3 then Failed timeoutError
      else if codigoModalidadeContratacao p = 6 then
        (if pagina p = 1 then Page [licLimpeza] (Some 3)
         else if pagina p = 2 then Page [licAsfalto] (Some 9)
         else Malformed)
      else if codigoModalidadeContratacao p = 8 then Page [licHospital] (Some 1)
      else Page [] (Some 0))"

definition exemploUpstreamLimites :: "nat \<Rightarrow> params \<Rightarrow> reply" where
  \<comment> \<open>The same upstream service, returning of each page only the records within the
      value bounds that the request carries.\<close>
  "exemploUpstreamLimites n p =
     (case exemploUpstream n p of
        Page recs tp \<Rightarrow> Page (filter (valorOk (valorMinimo p) (valorMaximo p)) recs) tp
      | Failed err \<Rightarrow> Failed err
      | Malformed \<Rightarrow> Malformed)"

definition exemploFiltrosUm :: PncpApiFilters where
  "exemploFiltrosUm = exemploFiltros\<lparr>valorMin := None, valorMax := Some 1\<rparr>"

section \<open>Properties of the modality resolver\<close>

text \<open>
  C2 (the code departs from the claim). The claim says that every key of the static
  table resolves to its own code, naming "dispensa de licitacao" (8) and
  "inexigibilidade de licitacao" (9). The normalisation removes " de licitacao" before
  the lookup, so these two keys are looked up as "dispensa" and "inexigibilidade",
  which the table does not hold: both names resolve to no code, and a request naming
  only them queries no modality at all. The rest of the claim holds at its examples:
  the empty list gives the 13 codes, and the two electronic modalities give 6 and 1.
\<close>

theorem getPncpModalidadeCodigo_own_keys_lost:
  "getPncpModalidadeCodigo (''dispensa de '' @ licitacao_sfx) = None
   \<and> getPncpModalidadeCodigo (''inexigibilidade de '' @ licitacao_sfx) = None
   \<and> map_of modalidadesMap (''dispensa de '' @ licitacao_sfx) = Some 8
   \<and> map_of modalidadesMap (''inexigibilidade de '' @ licitacao_sfx) = Some 9
   \<and> modalidadesCodigos [''dispensa de '' @ licitacao_sfx] = []
   \<and> modalidadesCodigos [] = [1, 2, 3, 4, 5, 6, 7, 8, 9, 10, 11, 12, 13]
   \<and> modalidadesCodigos [''Preg'' @ [CHR 0xC3] @ ''o Eletr'' @ [CHR 0xF4] @ ''nico'',
                          ''leil'' @ [CHR 0xE3] @ ''o eletr'' @ [CHR 0xF4] @ ''nico'',
                          ''tomada de pre'' @ [CHR 0xE7] @ ''os''] = [6, 1]"
  by code_simp

section \<open>The page loop and the run, step by step\<close>

declare pageLoop.simps [simp del]

lemma mkParams_simps [simp]:
  "valorMinimo (mkParams bp c j) = valorMinimo bp"
  "valorMaximo (mkParams bp c j) = valorMaximo bp"
  "param_dataInicial (mkParams bp c j) = param_dataInicial bp"
  "param_dataFinal (mkParams bp c j) = param_dataFinal bp"
  "uf (mkParams bp c j) = uf bp"
  "tamanhoPagina (mkParams bp c j) = tamanhoPagina bp"
  "codigoModalidadeContratacao (mkParams bp c j) = c"
  "pagina (mkParams bp c j) = j"
  by (simp_all add: mkParams_def baseParams.defs params.defs)

lemma pageLoop_sent_base:
  "p \<in> set (snd (pageLoop api bp c cur tot st)) \<Longrightarrow>
   p \<in> set (snd st) \<or> (\<exists>j. p = mkParams bp c j)"
proof (induction api bp c cur tot st rule: pageLoop.induct)
  case (1 api bp c cur tot st)
  show ?case
  proof (cases "cur \<le> tot")
    case False
    with "1.prems" show ?thesis by (simp add: pageLoop.simps)
  next
    case True
    show ?thesis
    proof (cases "api (length (snd st)) (mkParams bp c cur)")
      case (Failed err)
      with True "1.prems" show ?thesis by (subst (asm) pageLoop.simps) auto
    next
      case Malformed
      with True "1.prems" show ?thesis by (subst (asm) pageLoop.simps) auto
    next
      case (Page recs tp)
      show ?thesis
      proof (cases "cur = 1 \<and> positive tp")
        case first: True
        from "1.prems" True Page first
        have "p \<in> set (snd (pageLoop api bp c (cur + 1) (intOf tp)
                 (fst st @ recs, snd st @ [mkParams bp c cur])))"
          by (subst (asm) pageLoop.simps) simp
        from "1.IH"(1)[OF True Page first this] show ?thesis by auto
      next
        case nofirst: False
        show ?thesis
        proof (cases "cur = 1")
          case True
          with \<open>cur \<le> tot\<close> Page nofirst "1.prems" show ?thesis
            by (subst (asm) pageLoop.simps) auto
        next
          case False
          from "1.prems" \<open>cur \<le> tot\<close> Page nofirst False
          have "p \<in> set (snd (pageLoop api bp c (cur + 1) tot
                   (fst st @ recs, snd st @ [mkParams bp c cur])))"
            by (subst (asm) pageLoop.simps) simp
          from "1.IH"(2)[OF \<open>cur \<le> tot\<close> Page nofirst False this] show ?thesis by auto
        qed
      qed
    qed
  qed
qed

lemma fetchAll_sent_base_aux:
  "p \<in> set (snd (foldl (fetchModality api bp) st codes)) \<Longrightarrow>
   p \<in> set (snd st) \<or> (\<exists>c j. p = mkParams bp c j)"
proof (induction codes arbitrary: st)
  case Nil
  then show ?case by simp
next
  case (Cons c cs)
  from Cons.prems have "p \<in> set (snd (foldl (fetchModality api bp) (fetchModality api bp st c) cs))"
    by simp
  from Cons.IH[OF this] show ?case
    using pageLoop_sent_base[of p api bp c 1 1 st] by (auto simp: fetchModality_def)
qed

lemma fetchAll_sent_base:
  "p \<in> set (snd (fetchAll api bp codes)) \<Longrightarrow> \<exists>c j. p = mkParams bp c j"
  using fetchAll_sent_base_aux[of p api bp "([], [])" codes] by (simp add: fetchAll_def)

lemma buscar_Inr:
  "mkBaseParams f = Inr bp \<Longrightarrow>
   buscarLicitacoesPNCP api f =
     (\<lparr>success = True,
       data = Some \<lparr>pdata = finalResults (palavrasChave f) (blacklist f)
                               (fst (fetchAll api bp (modalidadesCodigos (modalidades f)))),
                    totalRegistros = int (length (finalResults (palavrasChave f) (blacklist f)
                               (fst (fetchAll api bp (modalidadesCodigos (modalidades f)))))),
                    totalPaginas = 1, numeroPagina = 1, paginasRestantes = 0,
                    emptyFlag = (finalResults (palavrasChave f) (blacklist f)
                               (fst (fetchAll api bp (modalidadesCodigos (modalidades f)))) = [])\<rparr>,
       error = None, status = Some 200\<rparr>,
      snd (fetchAll api bp (modalidadesCodigos (modalidades f))))"
  by (simp add: buscarLicitacoesPNCP_def Let_def split: prod.splits)

lemma handleApiError_Thrown:
  "handleApiError (Thrown t) d = Inr (apiErrorEnvelope t d)"
  by (simp add: handleApiError_def)

lemma handleApiError_unserialisable_body:
  "handleApiError (AxiosErrorUnserialisable resp msg tm) d = Inl (JsError tm)"
  by (simp add: handleApiError_def)

lemma buscar_Inl:
  "mkBaseParams f = Inl e \<Longrightarrow> buscarLicitacoesPNCP api f = (apiErrorEnvelope e erroGeral, [])"
  by (simp add: buscarLicitacoesPNCP_def)

lemma apiErrorEnvelope_not_success: "\<not> success (apiErrorEnvelope e d)"
  by (cases e) (simp_all add: apiErrorEnvelope_def Let_def)


lemma pageLoop_tail:
  assumes "2 \<le> cur" and "length (snd st) = n0 + nat (cur - 1)"
  shows "\<exists>k. cur - 1 \<le> k \<and> (k \<le> tot \<or> k = cur - 1)
           \<and> pageLoop api bp c cur tot st =
               (fst st @ concat (map (\<lambda>j. recsOf (pageReply api n0 bp c j)) [cur..k]),
                snd st @ map (mkParams bp c) [cur..k])
           \<and> (\<forall>j. cur \<le> j \<and> j < k \<longrightarrow> isPage (pageReply api n0 bp c j))
           \<and> (tot \<le> k \<or> (cur \<le> k \<and> \<not> isPage (pageReply api n0 bp c k)))"
  using assms
proof (induction api bp c cur tot st rule: pageLoop.induct)
  case (1 api bp c cur tot st)
  have idx: "pageReply api n0 bp c cur = api (length (snd st)) (mkParams bp c cur)"
    using "1.prems" by (simp add: pageReply_def)
  show ?case
  proof (cases "cur \<le> tot")
    case False
    then have "pageLoop api bp c cur tot st = st" by (simp add: pageLoop.simps)
    with False show ?thesis by (intro exI[of _ "cur - 1"]) auto
  next
    case True
    show ?thesis
    proof (cases "api (length (snd st)) (mkParams bp c cur)")
      case (Failed err)
      with True have "pageLoop api bp c cur tot st = (fst st, snd st @ [mkParams bp c cur])"
        by (subst pageLoop.simps) simp
      with True Failed idx show ?thesis
        by (intro exI[of _ cur]) (auto simp add: recsOf_def isPage_def)
    next
      case Malformed
      with True have "pageLoop api bp c cur tot st = (fst st, snd st @ [mkParams bp c cur])"
        by (subst pageLoop.simps) simp
      with True Malformed idx show ?thesis
        by (intro exI[of _ cur]) (auto simp add: recsOf_def isPage_def)
    next
      case (Page recs tp)
      from "1.prems" have ne: "cur \<noteq> 1" and nf: "\<not> (cur = 1 \<and> positive tp)" by auto
      let ?st = "(fst st @ recs, snd st @ [mkParams bp c cur])"
      have unf: "pageLoop api bp c cur tot st = pageLoop api bp c (cur + 1) tot ?st"
        using True Page ne by (subst pageLoop.simps) simp
      have len: "length (snd ?st) = n0 + nat (cur + 1 - 1)"
        using "1.prems" by (simp add: nat_diff_distrib)
      from "1.IH"(2)[OF True Page nf ne _ len] "1.prems"(1)
      obtain k where k: "cur \<le> k" "k \<le> tot \<or> k = cur"
        and res: "pageLoop api bp c (cur + 1) tot ?st =
               (fst ?st @ concat (map (\<lambda>j. recsOf (pageReply api n0 bp c j)) [cur + 1..k]),
                snd ?st @ map (mkParams bp c) [cur + 1..k])"
        and pages: "\<forall>j. cur + 1 \<le> j \<and> j < k \<longrightarrow> isPage (pageReply api n0 bp c j)"
        and stop: "tot \<le> k \<or> (cur + 1 \<le> k \<and> \<not> isPage (pageReply api n0 bp c k))"
        by auto
      have up: "[cur..k] = cur # [cur + 1..k]" using k(1) by (simp add: upto_rec1)
      have here: "recsOf (pageReply api n0 bp c cur) = recs" "isPage (pageReply api n0 bp c cur)"
        using idx Page by (simp_all add: recsOf_def isPage_def)
      have pages': "\<forall>j. cur \<le> j \<and> j < k \<longrightarrow> isPage (pageReply api n0 bp c j)"
      proof (intro allI impI)
        fix j assume "cur \<le> j \<and> j < k"
        then show "isPage (pageReply api n0 bp c j)"
          using pages here(2) by (cases "j = cur") auto
      qed
      show ?thesis
        apply (rule exI[of _ k])
        using k res pages' stop True unf up here by auto
    qed
  qed
qed

lemma fetchModality_summary:
  "\<exists>k. 1 \<le> k
     \<and> fetchModality api bp st c =
         (fst st @ concat (map (\<lambda>j. recsOf (pageReply api (length (snd st)) bp c j)) [1..k]),
          snd st @ map (mkParams bp c) [1..k])
     \<and> (\<forall>j. 1 \<le> j \<and> j < k \<longrightarrow> isPage (pageReply api (length (snd st)) bp c j))
     \<and> (case pageReply api (length (snd st)) bp c 1 of
           Page recs tp \<Rightarrow>
             if positive tp
             then k \<le> intOf tp \<and> (k = intOf tp \<or> \<not> isPage (pageReply api (length (snd st)) bp c k))
             else k = 1
         | _ \<Rightarrow> k = 1)"
proof -
  let ?n0 = "length (snd st)"
  have idx: "pageReply api ?n0 bp c 1 = api (length (snd st)) (mkParams bp c 1)"
    by (simp add: pageReply_def)
  show ?thesis
  proof (cases "api (length (snd st)) (mkParams bp c 1)")
    case (Failed err)
    then have "fetchModality api bp st c = (fst st, snd st @ [mkParams bp c 1])"
      unfolding fetchModality_def by (subst pageLoop.simps) simp
    with Failed idx show ?thesis
      by (intro exI[of _ 1]) (auto simp add: recsOf_def)
  next
    case Malformed
    then have "fetchModality api bp st c = (fst st, snd st @ [mkParams bp c 1])"
      unfolding fetchModality_def by (subst pageLoop.simps) simp
    with Malformed idx show ?thesis
      by (intro exI[of _ 1]) (auto simp add: recsOf_def)
  next
    case (Page recs tp)
    show ?thesis
    proof (cases "positive tp")
      case False
      with Page have "fetchModality api bp st c = (fst st @ recs, snd st @ [mkParams bp c 1])"
        unfolding fetchModality_def by (subst pageLoop.simps) simp
      with Page False idx show ?thesis
        by (intro exI[of _ 1]) (auto simp add: recsOf_def)
    next
      case True
      let ?st = "(fst st @ recs, snd st @ [mkParams bp c 1])"
      have unf: "fetchModality api bp st c = pageLoop api bp c 2 (intOf tp) ?st"
        using Page True unfolding fetchModality_def by (subst pageLoop.simps) simp
      have len: "length (snd ?st) = ?n0 + nat (2 - 1)" by simp
      from pageLoop_tail[of 2 ?st ?n0 "intOf tp" api bp c, OF _ len]
      obtain k where k: "1 \<le> k" "k \<le> intOf tp \<or> k = 1"
        and res: "pageLoop api bp c 2 (intOf tp) ?st =
               (fst ?st @ concat (map (\<lambda>j. recsOf (pageReply api ?n0 bp c j)) [2..k]),
                snd ?st @ map (mkParams bp c) [2..k])"
        and pages: "\<forall>j. 2 \<le> j \<and> j < k \<longrightarrow> isPage (pageReply api ?n0 bp c j)"
        and stop: "intOf tp \<le> k \<or> (2 \<le> k \<and> \<not> isPage (pageReply api ?n0 bp c k))"
        by auto
      have tpos: "1 \<le> intOf tp" using True by (auto simp: positive_def intOf_def split: option.splits)
      have up: "[1..k] = 1 # [2..k]" using k(1) by (simp add: upto_rec1)
      have here: "recsOf (pageReply api ?n0 bp c 1) = recs" "isPage (pageReply api ?n0 bp c 1)"
        using idx Page by (simp_all add: recsOf_def isPage_def)
      have pages': "\<forall>j. 1 \<le> j \<and> j < k \<longrightarrow> isPage (pageReply api ?n0 bp c j)"
      proof (intro allI impI)
        fix j assume "1 \<le> j \<and> j < k"
        then show "isPage (pageReply api ?n0 bp c j)"
          using pages here(2) by (cases "j = 1") auto
      qed
      have first: "pageReply api ?n0 bp c 1 = Page recs tp" using idx Page by simp
      show ?thesis
        apply (rule exI[of _ k])
        using k res pages' stop True unf up here tpos first by auto
    qed
  qed
qed

lemma toLowerCase_Nil [simp]: "toLowerCase t = [] \<longleftrightarrow> t = []"
  by (simp add: toLowerCase_def)

lemma mkBaseParams_fields:
  "mkBaseParams f = Inr bp \<Longrightarrow>
     dateParams (dataInicial f) (dataFinal f) = Some (param_dataInicial bp, param_dataFinal bp)
     \<and> tamanhoPagina bp = 50
     \<and> uf bp = (if truthyStr (estado f) then estado f else None)
     \<and> valorMinimo bp = (if truthyNum (valorMin f) then valorMin f else None)
     \<and> valorMaximo bp = (if truthyNum (valorMax f) then valorMax f else None)"
  by (auto simp: mkBaseParams_def split: option.splits prod.splits)

lemma buscar_sent:
  "p \<in> set (snd (buscarLicitacoesPNCP api f)) \<Longrightarrow>
   \<exists>bp c j. mkBaseParams f = Inr bp \<and> p = mkParams bp c j"
proof (cases "mkBaseParams f")
  case (Inl e)
  assume "p \<in> set (snd (buscarLicitacoesPNCP api f))"
  with Inl show ?thesis by (simp add: buscar_Inl)
next
  case (Inr bp)
  assume "p \<in> set (snd (buscarLicitacoesPNCP api f))"
  with Inr have "p \<in> set (snd (fetchAll api bp (modalidadesCodigos (modalidades f))))"
    by (simp add: buscar_Inr)
  from fetchAll_sent_base[OF this] Inr show ?thesis by auto
qed

lemma collected_snoc:
  "collected api (sent @ [p]) = collected api sent @ recsOf (api (length sent) p)"
proof -
  have a: "map (\<lambda>i. recsOf (api i ((sent @ [p]) ! i))) [0..<length sent]
        = map (\<lambda>i. recsOf (api i (sent ! i))) [0..<length sent]"
    by (rule map_cong) (simp_all add: nth_append)
  have "collected api (sent @ [p])
        = concat (map (\<lambda>i. recsOf (api i ((sent @ [p]) ! i))) [0..<length sent])
          @ recsOf (api (length sent) p)"
    by (simp add: collected_def)
  also have "\<dots> = collected api sent @ recsOf (api (length sent) p)"
    unfolding a by (simp add: collected_def)
  finally show ?thesis .
qed

lemma pageLoop_collected:
  "fst st = collected api (snd st) \<Longrightarrow>
   fst (pageLoop api bp c cur tot st) = collected api (snd (pageLoop api bp c cur tot st))"
proof (induction api bp c cur tot st rule: pageLoop.induct)
  case (1 api bp c cur tot st)
  show ?case
  proof (cases "cur \<le> tot")
    case False
    with "1.prems" show ?thesis by (simp add: pageLoop.simps)
  next
    case True
    show ?thesis
    proof (cases "api (length (snd st)) (mkParams bp c cur)")
      case (Failed err)
      with True "1.prems" show ?thesis
        by (subst (1 2) pageLoop.simps) (simp add: collected_snoc recsOf_def)
    next
      case Malformed
      with True "1.prems" show ?thesis
        by (subst (1 2) pageLoop.simps) (simp add: collected_snoc recsOf_def)
    next
      case (Page recs tp)
      let ?st = "(fst st @ recs, snd st @ [mkParams bp c cur])"
      have inv: "fst ?st = collected api (snd ?st)"
        using "1.prems" Page by (simp add: collected_snoc recsOf_def)
      show ?thesis
      proof (cases "cur = 1 \<and> positive tp")
        case first: True
        have unf: "pageLoop api bp c cur tot st = pageLoop api bp c (cur + 1) (intOf tp) ?st"
          using True Page first by (subst pageLoop.simps) simp
        from "1.IH"(1)[OF True Page first inv] show ?thesis by (simp only: unf)
      next
        case nofirst: False
        show ?thesis
        proof (cases "cur = 1")
          case True
          with \<open>cur \<le> tot\<close> Page nofirst have "pageLoop api bp c cur tot st = ?st"
            by (subst pageLoop.simps) auto
          with inv show ?thesis by simp
        next
          case False
          have unf: "pageLoop api bp c cur tot st = pageLoop api bp c (cur + 1) tot ?st"
            using \<open>cur \<le> tot\<close> Page False by (subst pageLoop.simps) simp
          from "1.IH"(2)[OF \<open>cur \<le> tot\<close> Page nofirst False inv] show ?thesis
            by (simp only: unf)
        qed
      qed
    qed
  qed
qed

lemma fold_collected:
  "fst st = collected api (snd st) \<Longrightarrow>
   fst (foldl (fetchModality api bp) st codes)
     = collected api (snd (foldl (fetchModality api bp) st codes))"
  by (induction codes arbitrary: st) (simp_all add: fetchModality_def pageLoop_collected)

lemma fetchAll_collected:
  "fst (fetchAll api bp codes) = collected api (snd (fetchAll api bp codes))"
  unfolding fetchAll_def by (rule fold_collected) (simp add: collected_def)

lemma first_pages_of_modality:
  assumes "1 \<le> k"
  shows "filter (\<lambda>p. pagina p = 1) (map (mkParams bp c) [1..k]) = [mkParams bp c 1]"
proof -
  have up: "[1..k] = 1 # [2..k]" using assms by (simp add: upto_rec1)
  have "filter (\<lambda>j. j = 1) [2..k] = []" by (auto simp: filter_empty_conv)
  then show ?thesis by (simp add: up filter_map comp_def)
qed

lemma fold_first_pages:
  "map codigoModalidadeContratacao
     (filter (\<lambda>p. pagina p = 1) (snd (foldl (fetchModality api bp) st codes)))
   = map codigoModalidadeContratacao (filter (\<lambda>p. pagina p = 1) (snd st)) @ codes"
proof (induction codes arbitrary: st)
  case Nil
  show ?case by simp
next
  case (Cons c cs)
  from fetchModality_summary[of api bp st c] obtain k where k: "1 \<le> k"
    and res: "snd (fetchModality api bp st c) = snd st @ map (mkParams bp c) [1..k]"
    by auto
  show ?case
    by (simp add: Cons.IH res first_pages_of_modality[OF k])
qed

lemma fetchAll_first_pages:
  "map codigoModalidadeContratacao (filter (\<lambda>p. pagina p = 1) (snd (fetchAll api bp codes)))
   = codes"
  unfolding fetchAll_def by (simp add: fold_first_pages)

lemma fetchModality_abandons:
  assumes "abandons api (snd st)"
  shows "abandons api (snd (fetchModality api bp st c))"
proof -
  let ?n = "length (snd st)"
  from fetchModality_summary[of api bp st c] obtain k where k: "1 \<le> k"
    and res: "snd (fetchModality api bp st c) = snd st @ map (mkParams bp c) [1..k]"
    and pages: "\<forall>j. 1 \<le> j \<and> j < k \<longrightarrow> isPage (pageReply api ?n bp c j)"
    by auto
  let ?new = "map (mkParams bp c) [1..k]"
  have len: "length ?new = nat k" by simp
  have nth_new: "?new ! m = mkParams bp c (1 + int m)" if "m < nat k" for m
    using that by (simp add: nth_upto)
  show ?thesis
    unfolding abandons_def res
  proof (intro allI impI)
    fix i
    assume h: "Suc i < length (snd st @ ?new) \<and> \<not> isPage (api i ((snd st @ ?new) ! i))"
    consider "Suc i < ?n" | "Suc i = ?n" | "?n \<le> i" by linarith
    then show "pagina ((snd st @ ?new) ! Suc i) = 1"
    proof cases
      case 1
      with h assms show ?thesis by (auto simp: abandons_def nth_append)
    next
      case 2
      with k have "(snd st @ ?new) ! Suc i = ?new ! 0" by (simp add: nth_append)
      also have "\<dots> = mkParams bp c 1" using nth_new[of 0] k by simp
      finally show ?thesis by simp
    next
      case 3
      define m where "m = i - ?n"
      from 3 h have m: "Suc m < nat k" and i: "i = ?n + m" by (auto simp: m_def)
      have "(snd st @ ?new) ! i = mkParams bp c (1 + int m)"
        using i m nth_new[of m] by (simp add: nth_append)
      then have "api i ((snd st @ ?new) ! i) = pageReply api ?n bp c (1 + int m)"
        by (simp add: pageReply_def i)
      moreover have "isPage (pageReply api ?n bp c (1 + int m))"
        using pages m by auto
      ultimately show ?thesis using h by simp
    qed
  qed
qed

lemma fold_abandons:
  "abandons api (snd st) \<Longrightarrow> abandons api (snd (foldl (fetchModality api bp) st codes))"
  by (induction codes arbitrary: st) (simp_all add: fetchModality_abandons)

lemma fetchAll_abandons: "abandons api (snd (fetchAll api bp codes))"
  unfolding fetchAll_def by (rule fold_abandons) (simp add: abandons_def)

section \<open>Properties of the error classifier\<close>

text \<open>
  C7 as stated fails: for a status other than 404 and 429 whose body carries no string
  under \<open>error\<close> or \<open>message\<close>, the claim promises the default message, but the code
  returns the Axios error's own message and falls back to the default message only
  when that message is empty. A 500 answer with an empty body shows it.
\<close>

theorem handleApiError_default_message_counterexample:
  "(handleApiError
      (Thrown (AxiosError (Some \<lparr>response_status = 500,
                                 response_data = Some \<lparr>error_field = Absent,
                                                       message_field = Absent\<rparr>\<rparr>)
                 ''Request failed with status code 500''))
      ''Erro geral'' :: thrown + unit ApiResponse)
     = Inr \<lparr>success = False, data = None,
            error = Some ''Request failed with status code 500'', status = Some 500\<rparr>
   \<and> (handleApiError
      (Thrown (AxiosError (Some \<lparr>response_status = 500,
                                 response_data = Some \<lparr>error_field = Absent,
                                                       message_field = Absent\<rparr>\<rparr>)
                 ''Request failed with status code 500''))
      ''Erro geral'' :: thrown + unit ApiResponse)
     \<noteq> Inr \<lparr>success = False, data = None, error = Some ''Erro geral'', status = Some 500\<rparr>"
  by (simp add: handleApiError_def apiErrorEnvelope_def Let_def orField_def truthyField_def)

text \<open>
  C7, amended. On every error input other than an Axios error whose response body
  cannot be serialised, the classifier does not throw and returns an envelope with
  \<open>success = false\<close>, no data, an error string and an integer status. With an HTTP
  response the response's status is used (500 when it is 0); 404 and 429 give the two
  fixed messages. For any other status the error is: the body's \<open>error\<close> field when
  that is a non-empty string; the body's \<open>message\<close> field when the \<open>error\<close> field is
  falsy and the \<open>message\<close> field is a string; and in every remaining case (no body
  fields, an \<open>error\<close> field that is truthy but no string, or a falsy \<open>error\<close> field
  with a \<open>message\<close> field that is no string) the Axios error's own message, or the
  default message when that is empty. An Axios error without a response gives 500
  with its own message (the default when empty), any other \<open>Error\<close> gives 500 with its
  message, and any other thrown value gives 500 with the default message.
\<close>

theorem handleApiError_classifies:
  "\<exists>env. (handleApiError (Thrown e) d :: thrown + 'a ApiResponse) = Inr env
   \<and> success env = False
   \<and> data env = None
   \<and> (\<exists>m. error env = Some m)
   \<and> (\<exists>s. status env = Some s)
   \<and> (e = AxiosError (Some resp) msg \<and> response_status resp \<noteq> 0 \<longrightarrow>
        status env = Some (response_status resp)
        \<and> (response_status resp = 404 \<longrightarrow> error env = Some msg404)
        \<and> (response_status resp = 429 \<longrightarrow> error env = Some msg429))
   \<and> (e = AxiosError (Some resp) msg \<and> response_status resp = 0 \<longrightarrow>
        status env = Some 500)
   \<and> (e = AxiosError (Some resp) msg \<and> response_status resp \<noteq> 404
       \<and> response_status resp \<noteq> 429 \<longrightarrow>
        (response_data resp = Some body \<and> error_field body = Str s \<and> s \<noteq> [] \<longrightarrow>
           error env = Some s)
        \<and> (response_data resp = Some body \<and> \<not> truthyField (error_field body)
            \<and> message_field body = Str s \<longrightarrow>
           error env = Some s)
        \<and> (response_data resp = None
            \<or> (response_data resp = Some body \<and> error_field body = OtherTruthy)
            \<or> (response_data resp = Some body \<and> \<not> truthyField (error_field body)
                \<and> (\<forall>t. message_field body \<noteq> Str t)) \<longrightarrow>
           error env = Some (if msg \<noteq> [] then msg else d)))
   \<and> (e = AxiosError None msg \<longrightarrow>
        status env = Some 500 \<and> error env = Some (if msg \<noteq> [] then msg else d))
   \<and> (e = JsError m \<longrightarrow> status env = Some 500 \<and> error env = Some m)
   \<and> (e = Unknown \<longrightarrow> status env = Some 500 \<and> error env = Some d)"
proof -
  have ret: "(handleApiError (Thrown e) d :: thrown + 'a ApiResponse)
             = Inr (apiErrorEnvelope e d)"
    by (simp add: handleApiError_def)
  show ?thesis
    unfolding ret
    by (cases e) (auto simp: apiErrorEnvelope_def Let_def orField_def truthyField_def
        split: option.splits jsfield.splits)
qed

theorem handleApiError_classifies_witness:
  "(handleApiError
      (Thrown (AxiosError (Some \<lparr>response_status = 503,
                                 response_data = Some \<lparr>error_field = Str [],
                                                       message_field = Str ''upstream down''\<rparr>\<rparr>)
                 ''Request failed with status code 503''))
      ''Erro geral'' :: thrown + unit ApiResponse)
   = Inr \<lparr>success = False, data = None, error = Some ''upstream down'', status = Some 503\<rparr>"
proof -
  from handleApiError_classifies
    [of "AxiosError (Some \<lparr>response_status = 503,
                            response_data = Some \<lparr>error_field = Str [],
                                                  message_field = Str ''upstream down''\<rparr>\<rparr>)
           ''Request failed with status code 503''"
        "''Erro geral''"
        "\<lparr>response_status = 503,
          response_data = Some \<lparr>error_field = Str [], message_field = Str ''upstream down''\<rparr>\<rparr>"
        "''Request failed with status code 503''"
        "\<lparr>error_field = Str [], message_field = Str ''upstream down''\<rparr>"
        "''upstream down''" "[]", where 'a = unit]
  obtain env :: "unit ApiResponse" where
    r: "handleApiError
          (Thrown (AxiosError (Some \<lparr>response_status = 503,
                                 response_data = Some \<lparr>error_field = Str [],
                                                       message_field = Str ''upstream down''\<rparr>\<rparr>)
                 ''Request failed with status code 503''))
          ''Erro geral'' = Inr env"
    and f: "success env = False" "data env = None" "status env = Some 503"
      "error env = Some ''upstream down''"
    by (auto simp: truthyField_def)
  from f have "env = \<lparr>success = False, data = None, error = Some ''upstream down'',
                      status = Some 503\<rparr>"
    by (cases env) simp
  with r show ?thesis by simp
qed

section \<open>Properties of the local filters\<close>

text \<open>
  C3. The numeric-range stage of the route handler compares
  \<open>max (estimated or 0) (homologated or 0)\<close> with the bounds: a record passes the stage
  iff the comparison value is at least \<open>valorMin\<close> when that is not null and at most
  \<open>valorMax\<close> when that is not null. Both bounds are inclusive, a null bound does not
  constrain, and a record is in the handler's output iff it is in the input, passes
  the inclusion stage and passes this stage.
\<close>

theorem valorOk_inclusive_range:
  "valorParaComparar lic =
     max (case valorTotalEstimado lic of None \<Rightarrow> 0 | Some v \<Rightarrow> v)
         (case valorTotalHomologado lic of None \<Rightarrow> 0 | Some v \<Rightarrow> v)
   \<and> (valorOk lo hi lic \<longleftrightarrow>
        (\<forall>a. lo = Some a \<longrightarrow> valorParaComparar lic \<ge> a)
        \<and> (\<forall>b. hi = Some b \<longrightarrow> valorParaComparar lic \<le> b))
   \<and> (lic \<in> set (licitacoesFiltradas pk syn lo hi lics) \<longleftrightarrow>
        lic \<in> set lics \<and> objetoOk (searchTerms pk syn) lic
        \<and> (\<forall>a. lo = Some a \<longrightarrow> valorParaComparar lic \<ge> a)
        \<and> (\<forall>b. hi = Some b \<longrightarrow> valorParaComparar lic \<le> b))
   \<and> valorOk (Some (valorParaComparar lic)) None lic
   \<and> valorOk None (Some (valorParaComparar lic)) lic
   \<and> valorOk None None lic"
  by (auto simp: valorParaComparar_def valorOk_def valorMinOk_def valorMaxOk_def
      licitacoesFiltradas_def split: option.splits)

theorem valorOk_inclusive_range_witness:
  "valorOk (Some 100000) None
     \<lparr>numeroControlePNCP = ''a'', objetoCompra = None,
      valorTotalEstimado = Some 100000, valorTotalHomologado = None\<rparr>
   \<and> \<not> valorOk (Some 100000) None
     \<lparr>numeroControlePNCP = ''b'', objetoCompra = None,
      valorTotalEstimado = Some 60000, valorTotalHomologado = Some 99999\<rparr>
   \<and> \<not> valorOk None (Some 100000)
     \<lparr>numeroControlePNCP = ''c'', objetoCompra = None,
      valorTotalEstimado = None, valorTotalHomologado = Some 100001\<rparr>"
  using
    valorOk_inclusive_range
      [of "\<lparr>numeroControlePNCP = ''a'', objetoCompra = None,
            valorTotalEstimado = Some 100000, valorTotalHomologado = None\<rparr>"
          "Some 100000" None]
    valorOk_inclusive_range
      [of "\<lparr>numeroControlePNCP = ''b'', objetoCompra = None,
            valorTotalEstimado = Some 60000, valorTotalHomologado = Some 99999\<rparr>"
          "Some 100000" None]
    valorOk_inclusive_range
      [of "\<lparr>numeroControlePNCP = ''c'', objetoCompra = None,
            valorTotalEstimado = None, valorTotalHomologado = Some 100001\<rparr>"
          None "Some 100000"]
  by simp

text \<open>
  C4. For every record whose object description is present and every blacklist, if
  some blacklist term is a case-insensitive substring of the description (the
  lower-cased term occurs in the lower-cased description), the record is not in the
  output of the fetch layer's filter, whatever the keywords, and not in the data of
  the envelope the pipeline returns. With an empty blacklist the filter is the
  keyword filter alone: no record is excluded by the blacklist rule.
\<close>

theorem blacklist_term_excludes:
  "(b \<in> set bl \<and> objetoCompra lic = Some desc \<and> sublist (toLowerCase b) (toLowerCase desc)
      \<longrightarrow> lic \<notin> set (finalResults kws bl raw))
   \<and> (b \<in> set (blacklist f) \<and> objetoCompra lic = Some desc
       \<and> sublist (toLowerCase b) (toLowerCase desc)
       \<and> data (fst (buscarLicitacoesPNCP api f)) = Some d
      \<longrightarrow> lic \<notin> set (pdata d))
   \<and> finalResults kws [] raw = filter (temKeyword (map toLowerCase kws)) raw
   \<and> (blacklist f = [] \<and> mkBaseParams f = Inr bp
       \<and> data (fst (buscarLicitacoesPNCP api f)) = Some d
      \<longrightarrow> pdata d = filter (temKeyword (map toLowerCase (palavrasChave f)))
                      (fst (fetchAll api bp (modalidadesCodigos (modalidades f)))))"
proof -
  have excl: "lic \<notin> set (finalResults kws' bl' raw')"
    if "b \<in> set bl'" "objetoCompra lic = Some desc" "sublist (toLowerCase b) (toLowerCase desc)"
    for kws' bl' raw'
    using that
    by (auto simp: finalResults_def temBlacklist_def list_ex_iff includesStr_def objeto_def)
  have noBl: "finalResults kws' [] raw' = filter (temKeyword (map toLowerCase kws')) raw'"
    for kws' raw'
    by (simp add: finalResults_def temBlacklist_def)
  have env: "lic \<notin> set (pdata d)"
    if "b \<in> set (blacklist f)" "objetoCompra lic = Some desc"
       "sublist (toLowerCase b) (toLowerCase desc)"
       "data (fst (buscarLicitacoesPNCP api f)) = Some d"
  proof (cases "mkBaseParams f")
    case (Inl e)
    with that(4) show ?thesis
      by (cases e) (simp_all add: buscar_Inl apiErrorEnvelope_def Let_def)
  next
    case (Inr bp')
    with that(4) have "pdata d = finalResults (palavrasChave f) (blacklist f)
        (fst (fetchAll api bp' (modalidadesCodigos (modalidades f))))"
      by (auto simp: buscar_Inr)
    with excl[OF that(1-3)] show ?thesis by simp
  qed
  have env2: "pdata d = filter (temKeyword (map toLowerCase (palavrasChave f)))
                      (fst (fetchAll api bp (modalidadesCodigos (modalidades f))))"
    if "blacklist f = []" "mkBaseParams f = Inr bp"
       "data (fst (buscarLicitacoesPNCP api f)) = Some d"
    using that noBl by (auto simp: buscar_Inr)
  from excl noBl env env2 show ?thesis by blast
qed

theorem blacklist_term_excludes_witness:
  "sublist (toLowerCase ''Urbana'') (toLowerCase ''Servico de LIMPEZA urbana'')
   \<and> licLimpeza \<notin> set (finalResults [''limpeza''] [''asfalto'', ''Urbana''] [licLimpeza])"
proof -
  have h: "sublist (toLowerCase ''Urbana'') (toLowerCase ''Servico de LIMPEZA urbana'')"
    by code_simp
  have o: "objetoCompra licLimpeza = Some ''Servico de LIMPEZA urbana''"
    by (simp add: licLimpeza_def)
  show ?thesis
    using h o blacklist_term_excludes
      [of "''Urbana''" "[''asfalto'', ''Urbana'']" licLimpeza "''Servico de LIMPEZA urbana''"
          "[''limpeza'']" "[licLimpeza]"]
    by simp
qed

text \<open>
  C5 as stated fails on the route handler: its term list drops the empty strings, so
  an empty keyword does not make a record pass. With the keywords \<open>""\<close> and
  \<open>"xyz"\<close> and the description \<open>"abc"\<close> the combined term set is not empty and one
  of its terms, the empty string, is a substring of the description, yet the record
  does not pass the inclusion stage.
\<close>

theorem objetoOk_empty_term_counterexample:
  "\<not> objetoOk (searchTerms [[], ''xyz''] [])
        \<lparr>numeroControlePNCP = ''0002'', objetoCompra = Some ''abc'',
         valorTotalEstimado = None, valorTotalHomologado = None\<rparr>
   \<and> map toLowerCase [[], ''xyz''] @ map toLowerCase (concat []) \<noteq> []
   \<and> [] \<in> set (map toLowerCase [[], ''xyz''] @ map toLowerCase (concat []))
   \<and> sublist [] (objeto \<lparr>numeroControlePNCP = ''0002'', objetoCompra = Some ''abc'',
                          valorTotalEstimado = None, valorTotalHomologado = None\<rparr>)"
  by code_simp

text \<open>
  C5, amended. The inclusion stage of the route handler passes a record iff every
  keyword and every synonym-group member is the empty string (the term list, with
  empty strings dropped, is empty), or some non-empty keyword or synonym-group
  member, lower-cased, is a substring of the lower-cased object description. In
  particular every record passes when the keyword set and the synonym set are empty.
  The inclusion stage of the fetch layer has keywords only and drops nothing: it
  passes a record iff there is no keyword or some lower-cased keyword is a substring
  of the lower-cased description.
\<close>

theorem objetoOk_inclusion:
  "(objetoOk (searchTerms pk syn) lic \<longleftrightarrow>
      (\<forall>t \<in> set (pk @ concat syn). t = [])
      \<or> (\<exists>t \<in> set (pk @ concat syn). t \<noteq> [] \<and> sublist (toLowerCase t) (objeto lic)))
   \<and> objetoOk (searchTerms [] []) lic
   \<and> (temKeyword (map toLowerCase kws) lic \<longleftrightarrow>
        kws = [] \<or> (\<exists>k \<in> set kws. sublist (toLowerCase k) (objeto lic)))"
proof -
  let ?ts = "searchTerms pk syn"
  have ts: "set ?ts = {toLowerCase t | t. t \<in> set (pk @ concat syn) \<and> t \<noteq> []}"
    by (auto simp: searchTerms_def)
  have "objetoOk ?ts lic \<longleftrightarrow> set ?ts = {} \<or> (\<exists>u \<in> set ?ts. sublist u (objeto lic))"
    by (simp add: objetoOk_def includesStr_def list_ex_iff)
  also have "\<dots> \<longleftrightarrow> (\<forall>t \<in> set (pk @ concat syn). t = [])
      \<or> (\<exists>t \<in> set (pk @ concat syn). t \<noteq> [] \<and> sublist (toLowerCase t) (objeto lic))"
    unfolding ts by blast
  finally have incl: "objetoOk ?ts lic \<longleftrightarrow> (\<forall>t \<in> set (pk @ concat syn). t = [])
      \<or> (\<exists>t \<in> set (pk @ concat syn). t \<noteq> [] \<and> sublist (toLowerCase t) (objeto lic))" .
  have none: "objetoOk (searchTerms [] []) lic"
    by (simp add: objetoOk_def searchTerms_def)
  have kw: "temKeyword (map toLowerCase kws) lic \<longleftrightarrow>
        kws = [] \<or> (\<exists>k \<in> set kws. sublist (toLowerCase k) (objeto lic))"
    by (auto simp: temKeyword_def includesStr_def list_ex_iff)
  from incl none kw show ?thesis by blast
qed

theorem objetoOk_inclusion_witness:
  "objetoOk (searchTerms [[], ''xyz''] [[''URBANA'', ''rural'']]) licLimpeza"
proof -
  have h: "sublist (toLowerCase ''URBANA'') (objeto licLimpeza)" by code_simp
  show ?thesis
    using h objetoOk_inclusion [of "[[], ''xyz'']" "[[''URBANA'', ''rural'']]" licLimpeza]
    by auto
qed

section \<open>Properties of the fetch pipeline\<close>

text \<open>
  C1. In every run in which some page request is answered by a failure, the pipeline
  still returns the success envelope with status 200; its data are the filtered
  records of all the pages that were answered in the run, so what the other
  modalities and the earlier pages delivered is kept; the requests for page 1 are,
  in order, exactly the modality codes of the Filter Set, so every remaining modality
  is still fetched; and the request after the failed one, if there is one, asks for
  page 1, so only the failed modality's pagination is abandoned.
\<close>

theorem failed_modality_isolated:
  "buscarLicitacoesPNCP api f = (env, sent) \<and> i < length sent \<and> api i (sent ! i) = Failed e
   \<longrightarrow>
     success env \<and> status env = Some 200
     \<and> (\<exists>d. data env = Some d
            \<and> pdata d = finalResults (palavrasChave f) (blacklist f) (collected api sent))
     \<and> map codigoModalidadeContratacao (filter (\<lambda>p. pagina p = 1) sent)
         = modalidadesCodigos (modalidades f)
     \<and> (Suc i < length sent \<longrightarrow> pagina (sent ! Suc i) = 1)"
proof
  assume h: "buscarLicitacoesPNCP api f = (env, sent) \<and> i < length sent
             \<and> api i (sent ! i) = Failed e"
  show "success env \<and> status env = Some 200
     \<and> (\<exists>d. data env = Some d
            \<and> pdata d = finalResults (palavrasChave f) (blacklist f) (collected api sent))
     \<and> map codigoModalidadeContratacao (filter (\<lambda>p. pagina p = 1) sent)
         = modalidadesCodigos (modalidades f)
     \<and> (Suc i < length sent \<longrightarrow> pagina (sent ! Suc i) = 1)"
  proof (cases "mkBaseParams f")
    case (Inl err)
    with h show ?thesis by (auto simp: buscar_Inl)
  next
    case (Inr bp)
    let ?codes = "modalidadesCodigos (modalidades f)"
    from h Inr have sent: "sent = snd (fetchAll api bp ?codes)"
      by (simp add: buscar_Inr)
    from h have "\<not> isPage (api i (sent ! i))" by (simp add: isPage_def)
    with fetchAll_abandons[of api bp ?codes]
    have nxt: "Suc i < length sent \<longrightarrow> pagina (sent ! Suc i) = 1"
      unfolding abandons_def sent by blast
    from h Inr fetchAll_collected[of api bp ?codes] fetchAll_first_pages[of api bp ?codes] nxt
    show ?thesis
      by (auto simp: buscar_Inr)
  qed
qed

theorem failed_modality_isolated_witness:
  "exemploUpstream 2 (snd (buscarLicitacoesPNCP exemploUpstream exemploFiltros) ! 2)
     = Failed timeoutError
   \<and> success (fst (buscarLicitacoesPNCP exemploUpstream exemploFiltros))
   \<and> pagina (snd (buscarLicitacoesPNCP exemploUpstream exemploFiltros) ! 3) = 1
   \<and> map codigoModalidadeContratacao
        (filter (\<lambda>p. pagina p = 1) (snd (buscarLicitacoesPNCP exemploUpstream exemploFiltros)))
      = [1, 2, 3, 4, 5, 6, 7, 8, 9, 10, 11, 12, 13]"
proof -
  let ?R = "buscarLicitacoesPNCP exemploUpstream exemploFiltros"
  have h1: "2 < length (snd ?R)" by code_simp
  have h2: "exemploUpstream 2 (snd ?R ! 2) = Failed timeoutError" by code_simp
  have h3: "Suc 2 < length (snd ?R)" by code_simp
  have h4: "modalidadesCodigos (modalidades exemploFiltros)
            = [1, 2, 3, 4, 5, 6, 7, 8, 9, 10, 11, 12, 13]" by code_simp
  have h5: "Suc 2 = 3" by simp
  show ?thesis
    using h1 h2 h3 h4
      failed_modality_isolated [of exemploUpstream exemploFiltros "fst ?R" "snd ?R" 2 timeoutError]
    by (simp add: h5)
qed

text \<open>
  C8. The page loop of every modality terminates (\<open>pageLoop\<close> is a total function)
  after requesting the pages \<open>1, ..., k\<close> for some \<open>k \<ge> 1\<close>, in this order and nothing
  else. Every page before \<open>k\<close> was answered by a page. If page 1 is answered by a
  failure or carries no array, or reports a total page count that is absent or not
  positive, then \<open>k = 1\<close>. Otherwise \<open>k\<close> is at most the total page count reported by
  page 1, and the loop stopped either because \<open>k\<close> reached that count or because
  page \<open>k\<close> was answered by a failure or carried no array.
\<close>

theorem page_loop_requests:
  "\<exists>k. 1 \<le> k
     \<and> snd (fetchModality api bp st c) = snd st @ map (mkParams bp c) [1..k]
     \<and> (\<forall>j. 1 \<le> j \<and> j < k \<longrightarrow> isPage (pageReply api (length (snd st)) bp c j))
     \<and> (case pageReply api (length (snd st)) bp c 1 of
           Page recs tp \<Rightarrow>
             if positive tp
             then k \<le> intOf tp
                  \<and> (k = intOf tp \<or> \<not> isPage (pageReply api (length (snd st)) bp c k))
             else k = 1
         | _ \<Rightarrow> k = 1)"
proof -
  from fetchModality_summary[of api bp st c] obtain k where "1 \<le> k"
    and "fetchModality api bp st c =
         (fst st @ concat (map (\<lambda>j. recsOf (pageReply api (length (snd st)) bp c j)) [1..k]),
          snd st @ map (mkParams bp c) [1..k])"
    and "\<forall>j. 1 \<le> j \<and> j < k \<longrightarrow> isPage (pageReply api (length (snd st)) bp c j)"
    and "case pageReply api (length (snd st)) bp c 1 of
           Page recs tp \<Rightarrow>
             if positive tp
             then k \<le> intOf tp
                  \<and> (k = intOf tp \<or> \<not> isPage (pageReply api (length (snd st)) bp c k))
             else k = 1
         | _ \<Rightarrow> k = 1"
    by blast
  then show ?thesis by (intro exI[of _ k]) simp
qed

theorem page_loop_requests_witness:
  "map pagina (snd (fetchModality exemploUpstream exemploBase ([], []) 6)) = [1, 2, 3]"
proof -
  let ?rep = "pageReply exemploUpstream 0 exemploBase 6"
  have r1: "?rep 1 = Page [licLimpeza] (Some 3)" by code_simp
  have r2: "?rep 2 = Page [licAsfalto] (Some 9)" by code_simp
  have r3: "?rep 3 = Malformed" by code_simp
  from page_loop_requests [of exemploUpstream exemploBase "([], [])" 6]
  obtain k where k: "1 \<le> k"
    and res: "snd (fetchModality exemploUpstream exemploBase ([], []) 6)
              = map (mkParams exemploBase 6) [1..k]"
    and stop: "k \<le> 3 \<and> (k = 3 \<or> \<not> isPage (?rep k))"
    by (auto simp: r1 positive_def intOf_def)
  from k stop have "k = 1 \<or> k = 2 \<or> k = 3" by auto
  with stop r1 r2 have "k = 3" by (auto simp: isPage_def)
  have "[1..3] = [1, 2, 3::int]" by code_simp
  with res \<open>k = 3\<close> show ?thesis by simp
qed

text \<open>
  C10. Whenever the pipeline returns a success envelope, whatever the upstream pages
  reported: the data of the envelope hold the filtered records, \<open>totalRegistros\<close> is
  their number, \<open>totalPaginas = 1\<close>, \<open>numeroPagina = 1\<close>, \<open>paginasRestantes = 0\<close>,
  \<open>empty\<close> holds iff there is no filtered record, the status is 200 and no error is set.
\<close>

theorem success_envelope_shape:
  "success (fst (buscarLicitacoesPNCP api f)) \<longrightarrow>
     (\<exists>bp d. mkBaseParams f = Inr bp
        \<and> data (fst (buscarLicitacoesPNCP api f)) = Some d
        \<and> pdata d = finalResults (palavrasChave f) (blacklist f)
                      (fst (fetchAll api bp (modalidadesCodigos (modalidades f))))
        \<and> totalRegistros d = int (length (pdata d))
        \<and> totalPaginas d = 1 \<and> numeroPagina d = 1 \<and> paginasRestantes d = 0
        \<and> (emptyFlag d \<longleftrightarrow> pdata d = []))
     \<and> status (fst (buscarLicitacoesPNCP api f)) = Some 200
     \<and> error (fst (buscarLicitacoesPNCP api f)) = None"
proof (cases "mkBaseParams f")
  case (Inl e)
  then show ?thesis by (simp add: buscar_Inl apiErrorEnvelope_not_success)
next
  case (Inr bp)
  then show ?thesis by (simp add: buscar_Inr)
qed

theorem success_envelope_shape_witness:
  "success (fst (buscarLicitacoesPNCP exemploUpstream exemploFiltros))
   \<and> status (fst (buscarLicitacoesPNCP exemploUpstream exemploFiltros)) = Some 200
   \<and> (\<exists>d. data (fst (buscarLicitacoesPNCP exemploUpstream exemploFiltros)) = Some d
          \<and> totalRegistros d = int (length (pdata d)) \<and> totalPaginas d = 1
          \<and> numeroPagina d = 1 \<and> paginasRestantes d = 0)"
proof -
  have h: "success (fst (buscarLicitacoesPNCP exemploUpstream exemploFiltros))" by code_simp
  show ?thesis
    using h success_envelope_shape [of exemploUpstream exemploFiltros] by blast
qed

text \<open>
  C9 (the code departs from the claim). The claim says that a bound that is not null
  is sent: \<open>valorMinimo\<close> equal to \<open>valorMin\<close> and \<open>valorMaximo\<close> equal to \<open>valorMax\<close>.
  The bounds are numbers or null, and the code tests them for truthiness, which drops
  the bound 0 together with null. With \<open>valorMin = 0\<close> and \<open>valorMax = 0\<close> none of the
  15 requests of the example run carries \<open>valorMinimo\<close> or \<open>valorMaximo\<close>; against an
  upstream service that honours the bounds it is sent, the run with \<open>valorMax = 0\<close>
  returns the records worth 60000 and 120000, while the run with \<open>valorMax = 1\<close>
  returns none.
\<close>

theorem value_bounds_zero_not_sent:
  "valorMin exemploFiltrosZero = Some 0
   \<and> valorMax exemploFiltrosZero = Some 0
   \<and> length (snd (buscarLicitacoesPNCP exemploUpstream exemploFiltrosZero)) = 15
   \<and> map valorMinimo (snd (buscarLicitacoesPNCP exemploUpstream exemploFiltrosZero))
       = replicate 15 None
   \<and> map valorMaximo (snd (buscarLicitacoesPNCP exemploUpstream exemploFiltrosZero))
       = replicate 15 None
   \<and> map_option (\<lambda>d. map valorParaComparar (pdata d))
        (data (fst (buscarLicitacoesPNCP exemploUpstreamLimites exemploFiltrosZero)))
       = Some [60000, 120000]
   \<and> map valorMaximo (snd (buscarLicitacoesPNCP exemploUpstreamLimites exemploFiltrosUm))
       = replicate 15 (Some 1)
   \<and> map_option (\<lambda>d. map valorParaComparar (pdata d))
        (data (fst (buscarLicitacoesPNCP exemploUpstreamLimites exemploFiltrosUm)))
       = Some []"
  by code_simp

text \<open>
  Where the claim holds: a bound that is neither null nor 0 is sent with every page
  request, equal to the bound, and a null bound contributes no parameter.
\<close>

lemma value_bounds_sent_when_truthy:
  "p \<in> set (snd (buscarLicitacoesPNCP api f)) \<Longrightarrow>
     (valorMin f = Some lo \<and> lo \<noteq> 0 \<longrightarrow> valorMinimo p = Some lo)
     \<and> (valorMin f = None \<longrightarrow> valorMinimo p = None)
     \<and> (valorMax f = Some hi \<and> hi \<noteq> 0 \<longrightarrow> valorMaximo p = Some hi)
     \<and> (valorMax f = None \<longrightarrow> valorMaximo p = None)"
proof -
  assume "p \<in> set (snd (buscarLicitacoesPNCP api f))"
  from buscar_sent[OF this] obtain bp c j
    where bp: "mkBaseParams f = Inr bp" and p: "p = mkParams bp c j" by blast
  from mkBaseParams_fields[OF bp] p show ?thesis
    by (auto simp: truthyNum_def)
qed

text \<open>
  C6. When both date bounds are present and parse as calendar dates, every page
  request carries the final date formatted \<open>yyyyMMdd\<close>; if the span between the bounds
  exceeds 365 days the start date sent is the day 365 days before the final date, so
  that the window sent is exactly 365 days ending at the original final date, and
  otherwise the start date is sent as given. A window of 400 days, from 2023-01-01
  to 2024-02-05, is sent as \<open>20230205\<close> to \<open>20240205\<close>.
\<close>

theorem date_window_sent:
  "dataInicial f = Some s1 \<and> s1 \<noteq> [] \<and> dataFinal f = Some s2 \<and> s2 \<noteq> []
   \<and> parseISO s1 = Some a \<and> parseISO s2 = Some b
   \<and> p \<in> set (snd (buscarLicitacoesPNCP api f)) \<longrightarrow>
     param_dataFinal p = Some (format_yyyyMMdd b)
     \<and> (differenceInDays b a > 365 \<longrightarrow>
          param_dataInicial p = Some (format_yyyyMMdd (subDays b 365))
          \<and> differenceInDays b (subDays b 365) = 365)
     \<and> (differenceInDays b a \<le> 365 \<longrightarrow> param_dataInicial p = Some (format_yyyyMMdd a))"
proof
  assume h: "dataInicial f = Some s1 \<and> s1 \<noteq> [] \<and> dataFinal f = Some s2 \<and> s2 \<noteq> []
   \<and> parseISO s1 = Some a \<and> parseISO s2 = Some b
   \<and> p \<in> set (snd (buscarLicitacoesPNCP api f))"
  then have "p \<in> set (snd (buscarLicitacoesPNCP api f))" by simp
  from buscar_sent[OF this] obtain bp c j
    where bp: "mkBaseParams f = Inr bp" and p: "p = mkParams bp c j" by blast
  from mkBaseParams_fields[OF bp]
  have "dateParams (Some s1) (Some s2) = Some (param_dataInicial bp, param_dataFinal bp)"
    using h by simp
  with h p
  show "param_dataFinal p = Some (format_yyyyMMdd b)
     \<and> (differenceInDays b a > 365 \<longrightarrow>
          param_dataInicial p = Some (format_yyyyMMdd (subDays b 365))
          \<and> differenceInDays b (subDays b 365) = 365)
     \<and> (differenceInDays b a \<le> 365 \<longrightarrow> param_dataInicial p = Some (format_yyyyMMdd a))"
    by (auto simp: dateParams_def truthyStr_def strOf_def Let_def differenceInDays_def
        subDays_def)
qed

theorem date_window_sent_witness:
  "parseISO ''2023-01-01'' = Some 19358 \<and> parseISO ''2024-02-05'' = Some 19758
   \<and> differenceInDays 19758 19358 = 400
   \<and> length (snd (buscarLicitacoesPNCP exemploUpstream exemploFiltros)) = 15
   \<and> list_all (\<lambda>p. param_dataInicial p = Some ''20230205''
                    \<and> param_dataFinal p = Some ''20240205'')
        (snd (buscarLicitacoesPNCP exemploUpstream exemploFiltros))"
proof -
  have n: "length (snd (buscarLicitacoesPNCP exemploUpstream exemploFiltros)) = 15"
    by code_simp
  have p1: "parseISO ''2023-01-01'' = Some 19358" by code_simp
  have p2: "parseISO ''2024-02-05'' = Some 19758" by code_simp
  have d: "differenceInDays 19758 19358 = 400" by (simp add: differenceInDays_def)
  have f1: "format_yyyyMMdd (subDays 19758 365) = ''20230205''" by code_simp
  have f2: "format_yyyyMMdd 19758 = ''20240205''" by code_simp
  have f: "dataInicial exemploFiltros = Some ''2023-01-01''"
    "dataFinal exemploFiltros = Some ''2024-02-05''"
    by (simp_all add: exemploFiltros_def)
  have "param_dataInicial p = Some ''20230205'' \<and> param_dataFinal p = Some ''20240205''"
    if "p \<in> set (snd (buscarLicitacoesPNCP exemploUpstream exemploFiltros))" for p
    using that f p1 p2 d f1 f2
      date_window_sent [of exemploFiltros "''2023-01-01''" "''2024-02-05''" 19358 19758 p
                           exemploUpstream]
    by simp
  with n p1 p2 d show ?thesis by (simp add: list_all_iff)
qed

end
